theory Spec2Isabelle
  imports Main "HOL-Library.AList" "HOL-Library.Sublist" "HOL-Library.List_Lexorder"
    "HOL-Library.Char_ord"
begin

section \<open>The request and response middleware of the vendored resty client\<close>

text \<open>
  The development follows \<^verbatim>\<open>Godeps/_workspace/src/gopkg.in/resty.v0/middleware.go\<close>:
  the request middleware \<^verbatim>\<open>parseRequestURL\<close>, \<^verbatim>\<open>parseRequestHeader\<close>,
  \<^verbatim>\<open>parseRequestBody\<close> and the response middleware \<^verbatim>\<open>parseResponseBody\<close>.
  A Go function that mutates its \<^verbatim>\<open>*Request\<close> (or \<^verbatim>\<open>*Response\<close>) and returns an
  \<^verbatim>\<open>error\<close> becomes a function that returns the updated value paired with
  \<open>error option\<close> (\<open>None\<close> is Go's \<^verbatim>\<open>nil\<close>); a run-time panic is a separate
  outcome.
\<close>

subsection \<open>Go values\<close>

text \<open>A byte slice that is not \<^verbatim>\<open>nil\<close>, and a Go string, are lists of bytes.\<close>

type_synonym bytes = string

text \<open>A Go \<^verbatim>\<open>error\<close>, identified by the text its \<^verbatim>\<open>Error()\<close> method returns.\<close>

datatype error = Err string

datatype panic = NilPointerDereference

text \<open>
  \<^verbatim>\<open>url.Values\<close> and \<^verbatim>\<open>http.Header\<close> are both \<^verbatim>\<open>map[string][]string\<close>. A Go map
  is an association list here; the order of the list is the order in which a
  \<^verbatim>\<open>range\<close> loop happens to visit the keys, which Go leaves unspecified.
\<close>

type_synonym Values = "(string \<times> string list) list"

definition keys :: "Values \<Rightarrow> string list" where
  "keys m = map fst m"

text \<open>\<^verbatim>\<open>Values.Get\<close>: the first value of the key, the empty string when there is none.\<close>

definition values_get :: "Values \<Rightarrow> string \<Rightarrow> string" where
  "values_get m k = (case map_of m k of None \<Rightarrow> [] | Some [] \<Rightarrow> [] | Some (v # _) \<Rightarrow> v)"

text \<open>\<^verbatim>\<open>Values.Set\<close>: the key is bound to the one value, replacing what was there.\<close>

definition values_set :: "string \<Rightarrow> string \<Rightarrow> Values \<Rightarrow> Values" where
  "values_set k v m = AList.update k [v] m"

text \<open>\<^verbatim>\<open>fmt.Sprintf("%d", n)\<close> for a length.\<close>

fun showNat :: "nat \<Rightarrow> string" where
  "showNat n =
     (if n < 10 then [''0123456789'' ! n]
      else showNat (n div 10) @ [''0123456789'' ! (n mod 10)])"

text \<open>The fields of \<^verbatim>\<open>url.URL\<close>; \<^verbatim>\<open>IsAbs\<close> asks for a scheme.\<close>

record url =
  Scheme :: string
  Opaque :: string
  Host :: string
  Path :: string
  RawQuery :: string
  Fragment :: string


text \<open>
  The value behind the \<^verbatim>\<open>interface{}\<close> of \<^verbatim>\<open>Request.Body\<close>, by its dynamic type:
  a struct or a map (also behind a pointer), a \<^verbatim>\<open>string\<close>, a \<^verbatim>\<open>[]byte\<close> (which may be
  the \<^verbatim>\<open>nil\<close> slice), or a value of any other type.
\<close>

datatype 'v body =
    BodyStruct 'v
  | BodyMap 'v
  | BodyString string
  | BodyBytes "bytes option"
  | BodyOther 'v

datatype kind = reflect_Struct | reflect_Map | reflect_String | reflect_Slice | reflect_Other

text \<open>
  Modelled from the spec: \<^verbatim>\<open>getBaseKind\<close> is declared in another file. It is the
  \<^verbatim>\<open>reflect.Kind\<close> of the body value, by which the spec tells a mapping and a record
  from a string and a byte sequence.
\<close>

fun getBaseKind :: "'v body \<Rightarrow> kind" where
  "getBaseKind (BodyStruct _) = reflect_Struct"
| "getBaseKind (BodyMap _) = reflect_Map"
| "getBaseKind (BodyString _) = reflect_String"
| "getBaseKind (BodyBytes _) = reflect_Slice"
| "getBaseKind (BodyOther _) = reflect_Other"

text \<open>
  What a \<^verbatim>\<open>multipart.Writer\<close> has written, part by part, and the buffer behind
  \<^verbatim>\<open>Request.bodyBuf\<close>: plain bytes, or the parts of a multipart body.
\<close>

datatype part = FieldPart string string | FilePart string string bytes

datatype buffer = Bytes bytes | Multipart "part list"

subsection \<open>What the middleware uses from outside the file\<close>

text \<open>
  The middleware calls the Go library (\<^verbatim>\<open>net/url\<close>, \<^verbatim>\<open>net/http\<close>, \<^verbatim>\<open>encoding/json\<close>,
  \<^verbatim>\<open>encoding/xml\<close>, \<^verbatim>\<open>mime/multipart\<close>, \<^verbatim>\<open>reflect\<close>, the file system) and helpers of
  the package that are declared in other files. They are parameters of the model,
  collected in one record, and every theorem holds for all of them:
  \<^item> \<open>CanonicalHeaderKey\<close>: the key under which \<^verbatim>\<open>http.Header\<close> stores and looks up;
  \<^item> \<open>urlParse\<close>, \<open>urlString\<close>, \<open>ParseQuery\<close>, \<open>Encode\<close>: \<^verbatim>\<open>url.Parse\<close>, \<^verbatim>\<open>URL.String\<close>,
    the parsing behind \<^verbatim>\<open>URL.Query\<close>, and \<^verbatim>\<open>Values.Encode\<close>;
  \<^item> \<open>userAgent\<close>: the text \<^verbatim>\<open>fmt.Sprintf(hdrUserAgentValue, Version)\<close>;
  \<^item> \<open>IsStringEmpty\<close>, \<open>IsJSONType\<close>, \<open>IsXMLType\<close>, \<open>isPayloadSupported\<close>,
    \<open>DetectContentType\<close>, \<open>Unmarshal\<close>: the package helpers of these names;
  \<^item> \<open>jsonMarshal\<close>, \<open>xmlMarshal\<close>: \<^verbatim>\<open>json.Marshal\<close> and \<^verbatim>\<open>xml.Marshal\<close>, returning the
    bytes (\<open>None\<close> is the \<^verbatim>\<open>nil\<close> slice) and the error;
  \<^item> \<open>reflectNew\<close>: \<^verbatim>\<open>reflect.New(t).Interface()\<close>, a fresh value of a type;
  \<^item> \<open>readFile\<close>: opening and reading a file of the file system;
  \<^item> \<open>FormDataContentType\<close>, \<open>writerClose\<close>, \<open>multipartLen\<close>: the content type with the
    boundary of the multipart writer, the error of its \<^verbatim>\<open>Close\<close>, and the number of
    bytes the written parts take in the buffer.
\<close>

record ('v, 't) env =
  CanonicalHeaderKey :: "string \<Rightarrow> string"
  urlParse :: "string \<Rightarrow> error + url"
  urlString :: "url \<Rightarrow> string"
  ParseQuery :: "string \<Rightarrow> Values"
  Encode :: "Values \<Rightarrow> string"
  userAgent :: string
  IsStringEmpty :: "string \<Rightarrow> bool"
  IsJSONType :: "string \<Rightarrow> bool"
  IsXMLType :: "string \<Rightarrow> bool"
  isPayloadSupported :: "string \<Rightarrow> bool"
  DetectContentType :: "'v body \<Rightarrow> string"
  jsonMarshal :: "'v body \<Rightarrow> bytes option \<times> error option"
  xmlMarshal :: "'v body \<Rightarrow> bytes option \<times> error option"
  Unmarshal :: "string \<Rightarrow> bytes \<Rightarrow> 'v \<Rightarrow> 'v \<times> error option"
  reflectNew :: "'t \<Rightarrow> 'v"
  readFile :: "string \<Rightarrow> error + bytes"
  FormDataContentType :: string
  writerClose :: "part list \<Rightarrow> error option"
  multipartLen :: "part list \<Rightarrow> nat"

definition hdrContentTypeKey :: string where "hdrContentTypeKey = ''Content-Type''"
definition hdrContentLengthKey :: string where "hdrContentLengthKey = ''Content-Length''"
definition formContentType :: string where
  "formContentType = ''application/x-www-form-urlencoded''"
definition GET :: string where "GET = ''GET''"
definition POST :: string where "POST = ''POST''"
definition DELETE :: string where "DELETE = ''DELETE''"
definition PATCH :: string where "PATCH = ''PATCH''"

text \<open>\<^verbatim>\<open>Header.Get\<close>, \<^verbatim>\<open>Header.Set\<close> and \<^verbatim>\<open>Header.Del\<close> work on the canonical key.\<close>

definition header_get :: "('v, 't) env \<Rightarrow> Values \<Rightarrow> string \<Rightarrow> string" where
  "header_get env h k = values_get h (CanonicalHeaderKey env k)"

definition header_set :: "('v, 't) env \<Rightarrow> string \<Rightarrow> string \<Rightarrow> Values \<Rightarrow> Values" where
  "header_set env k v h = AList.update (CanonicalHeaderKey env k) [v] h"

definition header_del :: "('v, 't) env \<Rightarrow> string \<Rightarrow> Values \<Rightarrow> Values" where
  "header_del env k h = AList.delete (CanonicalHeaderKey env k) h"

subsection \<open>Client, Request, Response\<close>

text \<open>The fields of the three structs that the middleware reads or writes.\<close>

record 't client =
  HostURL :: string
  QueryParam :: Values
  FormData :: Values
  Header :: Values
  Error :: "'t option"
  setContentLength :: bool

record 'v request =
  URL :: string
  Method :: string
  QueryParam :: Values
  FormData :: Values
  Header :: Values
  Body :: "'v body option"
  Result :: "'v option"
  Error :: "'v option"
  isMultiPart :: bool
  isFormData :: bool
  setContentLength :: bool
  bodyBuf :: "buffer option"

text \<open>
  \<^verbatim>\<open>Response.StatusCode()\<close> and \<^verbatim>\<open>Response.Header()\<close> read the raw response; they are
  fields here.
\<close>

record 'v response =
  StatusCode :: int
  Header :: Values
  Body :: bytes
  Request :: "'v request"

subsection \<open>parseRequestURL\<close>

text \<open>
  The block "Adding Query Param": the query of the parsed URL, then the Client's
  parameters, then the Request's, each with \<^verbatim>\<open>query.Set\<close>.
\<close>

definition mergedQuery :: "('v, 't) env \<Rightarrow> 't client \<Rightarrow> 'v request \<Rightarrow> url \<Rightarrow> Values" where
  "mergedQuery env c r reqURL =
     (let query = ParseQuery env (RawQuery reqURL);
          query = fold (\<lambda>k q. values_set k (values_get (client.QueryParam c) k) q)
                    (keys (client.QueryParam c)) query;
          query = fold (\<lambda>k q. values_set k (values_get (request.QueryParam r) k) q)
                    (keys (request.QueryParam r)) query
      in query)"



subsection \<open>parseRequestHeader\<close>



subsection \<open>parseRequestBody\<close>

text \<open>
  \<^verbatim>\<open>parseRequestBody\<close> leaves a branch either by \<^verbatim>\<open>return\<close> or by reaching the label
  \<^verbatim>\<open>CL\<close> (by \<^verbatim>\<open>goto\<close>, or by falling through).
\<close>

datatype 'a flow = Return 'a | GotoCL 'a

text \<open>
  Modelled from the spec: \<^verbatim>\<open>addFile\<close> is declared in another file. It opens the file at
  the path, fails with the file-not-found or IO error if it cannot be read, and
  streams its bytes into a new multipart file part under the field name.
\<close>

definition addFile :: "('v, 't) env \<Rightarrow> part list \<Rightarrow> string \<Rightarrow> string \<Rightarrow> part list \<times> error option" where
  "addFile env w fieldName path =
     (case readFile env path of
        Inl err \<Rightarrow> (w, Some err)
      | Inr content \<Rightarrow> (w @ [FilePart fieldName path content], None))"

text \<open>The loop over \<^verbatim>\<open>r.FormData\<close> of the multipart branch; it returns at the first
  file that fails.\<close>

fun writeRequestFields :: "('v, 't) env \<Rightarrow> Values \<Rightarrow> string list \<Rightarrow> part list \<Rightarrow> part list \<times> error option" where
  "writeRequestFields env fd [] w = (w, None)"
| "writeRequestFields env fd (p # ps) w =
     (if prefix ''@'' p then
        (case addFile env w (drop 1 p) (values_get fd p) of
           (w, Some err) \<Rightarrow> (w, Some err)
         | (w, None) \<Rightarrow> writeRequestFields env fd ps w)
      else writeRequestFields env fd ps (w @ [FieldPart p (values_get fd p)]))"

text \<open>"Handling Multipart".\<close>

definition multipartBody :: "('v, 't) env \<Rightarrow> 't client \<Rightarrow> 'v request \<Rightarrow> ('v request \<times> error option) flow" where
  "multipartBody env c r =
     (let w = [];
          w = fold (\<lambda>p w. w @ [FieldPart p (values_get (client.FormData c) p)])
                (keys (client.FormData c)) w
      in case writeRequestFields env (request.FormData r) (keys (request.FormData r)) w of
           (w, Some err) \<Rightarrow> Return (r\<lparr>bodyBuf := Some (Multipart w)\<rparr>, Some err)
         | (w, None) \<Rightarrow>
             GotoCL (r\<lparr>bodyBuf := Some (Multipart w),
                       request.Header :=
                         header_set env hdrContentTypeKey (FormDataContentType env) (request.Header r)\<rparr>,
                     writerClose env w))"

text \<open>"Handling Form Data".\<close>

definition mergedFormData :: "'t client \<Rightarrow> 'v request \<Rightarrow> Values" where
  "mergedFormData c r =
     (let formData = [];
          formData = fold (\<lambda>p f. values_set p (values_get (client.FormData c) p) f)
                       (keys (client.FormData c)) formData;
          formData = fold (\<lambda>p f. values_set p (values_get (request.FormData r) p) f)
                       (keys (request.FormData r)) formData
      in formData)"

definition formBody :: "('v, 't) env \<Rightarrow> 't client \<Rightarrow> 'v request \<Rightarrow> ('v request \<times> error option) flow" where
  "formBody env c r =
     GotoCL (r\<lparr>bodyBuf := Some (Bytes (Encode env (mergedFormData c r))),
               request.Header := header_set env hdrContentTypeKey formContentType (request.Header r),
               isFormData := True\<rparr>,
             None)"

text \<open>
  "Handling Request body", for a body that is not \<^verbatim>\<open>nil\<close>, in three steps: the
  content type (detected and set on the request when the header has none), the chain
  of \<^verbatim>\<open>if\<close>s that fills \<^verbatim>\<open>bodyBytes\<close> and \<^verbatim>\<open>err\<close>, and what follows it.
\<close>

definition marshalBody :: "('v, 't) env \<Rightarrow> string \<Rightarrow> 'v body \<Rightarrow> bytes option \<times> error option" where
  "marshalBody env contentType b =
     (let kind = getBaseKind b in
      if IsJSONType env contentType \<and> (kind = reflect_Struct \<or> kind = reflect_Map)
      then jsonMarshal env b
      else if IsXMLType env contentType \<and> kind = reflect_Struct
      then xmlMarshal env b
      else (case b of
              BodyString s \<Rightarrow> (Some s, None)
            | BodyBytes bs \<Rightarrow> (bs, None)
            | _ \<Rightarrow> (None, None)))"

definition intoBuffer :: "'v request \<Rightarrow> bytes option \<times> error option \<Rightarrow> ('v request \<times> error option) flow" where
  "intoBuffer r m =
     (case m of (bodyBytes, err) \<Rightarrow>
        (case err of
           Some e \<Rightarrow> Return (r, Some e)
         | None \<Rightarrow>
             (case bodyBytes of
                None \<Rightarrow> Return (r, Some (Err ''Unsupported 'Body' type/value''))
              | Some bs \<Rightarrow> GotoCL (r\<lparr>bodyBuf := Some (Bytes bs)\<rparr>, None))))"

definition requestBody :: "('v, 't) env \<Rightarrow> 'v request \<Rightarrow> 'v body \<Rightarrow> ('v request \<times> error option) flow" where
  "requestBody env r b =
     (let contentType = header_get env (request.Header r) hdrContentTypeKey;
          (contentType, r) =
             (if IsStringEmpty env contentType
              then (DetectContentType env b,
                    r\<lparr>request.Header :=
                        header_set env hdrContentTypeKey (DetectContentType env b) (request.Header r)\<rparr>)
              else (contentType, r))
      in intoBuffer r (marshalBody env contentType b))"

text \<open>\<^verbatim>\<open>bodyBuf.Len()\<close> on a buffer that is there.\<close>

definition bufLen :: "('v, 't) env \<Rightarrow> buffer \<Rightarrow> nat" where
  "bufLen env b = (case b of Bytes bs \<Rightarrow> length bs | Multipart w \<Rightarrow> multipartLen env w)"

text \<open>The label \<^verbatim>\<open>CL\<close>: \<^verbatim>\<open>r.bodyBuf.Len()\<close> dereferences the buffer pointer.\<close>

definition contentLength :: "('v, 't) env \<Rightarrow> 't client \<Rightarrow> 'v request \<times> error option \<Rightarrow> panic + 'v request \<times> error option" where
  "contentLength env c x =
     (case x of (r, err) \<Rightarrow>
        if client.setContentLength c \<or> request.setContentLength r then
          (case bodyBuf r of
             None \<Rightarrow> Inl NilPointerDereference
           | Some b \<Rightarrow>
               Inr (r\<lparr>request.Header :=
                        header_set env hdrContentLengthKey (showNat (bufLen env b)) (request.Header r)\<rparr>,
                    err))
        else Inr (r, err))"

definition parseRequestBody :: "('v, 't) env \<Rightarrow> 't client \<Rightarrow> 'v request \<Rightarrow> panic + 'v request \<times> error option" where
  "parseRequestBody env c r =
     (case
        (if isPayloadSupported env (Method r) then
           if isMultiPart r \<and> \<not> (Method r = PATCH) then multipartBody env c r
           else if length (client.FormData c) > 0 \<or> length (request.FormData r) > 0
           then formBody env c r
           else (case request.Body r of
                   Some b \<Rightarrow> requestBody env r b
                 | None \<Rightarrow> GotoCL (r, None))
         else
           GotoCL (r\<lparr>request.Header := header_del env hdrContentTypeKey (request.Header r)\<rparr>, None))
      of
        Return x \<Rightarrow> Inr x
      | GotoCL x \<Rightarrow> contentLength env c x)"

text \<open>
  The content type that "Handling Request body" works with: the request's header, or
  the detected type when the header is empty.
\<close>

definition effectiveContentType :: "('v, 't) env \<Rightarrow> 'v request \<Rightarrow> 'v body \<Rightarrow> string" where
  "effectiveContentType env r b =
     (if IsStringEmpty env (header_get env (request.Header r) hdrContentTypeKey)
      then DetectContentType env b
      else header_get env (request.Header r) hdrContentTypeKey)"

text \<open>
  What a caller sees of a run of \<^verbatim>\<open>parseRequestBody\<close>: it returned without error, it
  returned a given error, and the body buffer and the header of the request
  afterwards.
\<close>

definition succeeds :: "panic + 'v request \<times> error option \<Rightarrow> bool" where
  "succeeds out = (case out of Inr (r, err) \<Rightarrow> err = None | Inl p \<Rightarrow> False)"

definition failsWith :: "panic + 'v request \<times> error option \<Rightarrow> error \<Rightarrow> bool" where
  "failsWith out e = (case out of Inr (r, err) \<Rightarrow> err = Some e | Inl p \<Rightarrow> False)"

definition bufferOf :: "panic + 'v request \<times> error option \<Rightarrow> buffer option" where
  "bufferOf out = (case out of Inr (r, err) \<Rightarrow> bodyBuf r | Inl p \<Rightarrow> None)"


text \<open>
  The outcome of a body that went through a marshaller: its error fails the call,
  its bytes become the body, and \<^verbatim>\<open>nil\<close> bytes without an error are refused.
\<close>

definition marshalledBy :: "panic + 'v request \<times> error option \<Rightarrow> bytes option \<times> error option \<Rightarrow> bool" where
  "marshalledBy out m =
     (case m of
        (bodyBytes, Some e) \<Rightarrow> failsWith out e
      | (Some bs, None) \<Rightarrow> succeeds out \<and> bufferOf out = Some (Bytes bs)
      | (None, None) \<Rightarrow> failsWith out (Err ''Unsupported 'Body' type/value''))"

subsection \<open>parseResponseBody\<close>

text \<open>The local \<^verbatim>\<open>ct\<close>.\<close>

definition ct :: "('v, 't) env \<Rightarrow> 'v response \<Rightarrow> string" where
  "ct env res = header_get env (response.Header res) hdrContentTypeKey"

text \<open>
  "Considered as Result". The call \<^verbatim>\<open>Unmarshal(ct, res.Body, res.Request.Result)\<close> gives
  the target as the decoder leaves it, and the decoder's error.
\<close>

definition consideredAsResult :: "('v, 't) env \<Rightarrow> 'v response \<Rightarrow> 'v response \<times> error option" where
  "consideredAsResult env res =
     (if StatusCode res > 199 \<and> StatusCode res < 300 then
        (case Result (Request res) of
           Some d \<Rightarrow>
             (case Unmarshal env (ct env res) (response.Body res) d of
                (d, err) \<Rightarrow> (res\<lparr>Request := (Request res)\<lparr>Result := Some d\<rparr>\<rparr>, err))
         | None \<Rightarrow> (res, None))
      else (res, None))"

text \<open>"Considered as Error"; the "global error interface" is the Client's.\<close>

definition consideredAsError :: "('v, 't) env \<Rightarrow> 't client \<Rightarrow> 'v response \<times> error option \<Rightarrow> 'v response \<times> error option" where
  "consideredAsError env c x =
     (case x of (res, err) \<Rightarrow>
        if StatusCode res > 399 then
          (let res =
                 (case (request.Error (Request res), client.Error c) of
                    (None, Some t) \<Rightarrow>
                      res\<lparr>Request := (Request res)\<lparr>request.Error := Some (reflectNew env t)\<rparr>\<rparr>
                  | _ \<Rightarrow> res)
           in case request.Error (Request res) of
                Some d \<Rightarrow>
                  (case Unmarshal env (ct env res) (response.Body res) d of
                     (d, err) \<Rightarrow> (res\<lparr>Request := (Request res)\<lparr>request.Error := Some d\<rparr>\<rparr>, err))
              | None \<Rightarrow> (res, err))
        else (res, err))"

definition parseResponseBody :: "('v, 't) env \<Rightarrow> 't client \<Rightarrow> 'v response \<Rightarrow> 'v response \<times> error option" where
  "parseResponseBody env c res =
     (if IsJSONType env (ct env res) \<or> IsXMLType env (ct env res)
      then consideredAsError env c (consideredAsResult env res)
      else (res, None))"

subsection \<open>The post-response chain\<close>

text \<open>
  Modelled from the spec: the runner of the post-response middleware chain is declared
  in another file. Each middleware receives the Client and the Response and returns
  success or an error; the runner applies the chain in order to the Response that the
  transport produced, stops at the first failing step and propagates that error; the
  caller receives the Response together with the error (a decoding failure is not
  fatal to the Response: it is still returned). The chain is a parameter here: the
  spec puts the debug log and the body parse first and the user-registered hooks
  after them.
\<close>

type_synonym ('v, 't) responseMiddleware = "'t client \<Rightarrow> 'v response \<Rightarrow> 'v response \<times> error option"

fun runAfterResponse :: "('v, 't) responseMiddleware list \<Rightarrow> 't client \<Rightarrow> 'v response \<Rightarrow> 'v response \<times> error option" where
  "runAfterResponse [] c res = (res, None)"
| "runAfterResponse (f # fs) c res =
     (case f c res of
        (res, Some err) \<Rightarrow> (res, Some err)
      | (res, None) \<Rightarrow> runAfterResponse fs c res)"

subsection \<open>Issuing a call\<close>

text \<open>
  Modelled from the spec: \<^verbatim>\<open>Request.SetFile\<close> and \<^verbatim>\<open>Request.Execute\<close> are declared
  in another file. Attaching a file records it under the "@"-prefixed field name and
  marks the request as multipart. Issuing the call rejects multipart content for the
  verbs that exclude a body, GET and DELETE in this design, with the error text that
  \<^verbatim>\<open>TestMultiPartUploadFileNotOnGetOrDelete\<close> expects; otherwise it fixes method and
  URL and hands the request to \<open>send\<close>, which stands for the rest of the call: both
  middleware chains and the transport with all its network I/O.
\<close>

definition SetFile :: "string \<Rightarrow> string \<Rightarrow> 'v request \<Rightarrow> 'v request" where
  "SetFile param filePath r =
     r\<lparr>isMultiPart := True,
       request.FormData := values_set (''@'' @ param) filePath (request.FormData r)\<rparr>"

definition Execute :: "('v request \<Rightarrow> 'a) \<Rightarrow> string \<Rightarrow> string \<Rightarrow> 'v request \<Rightarrow> error + 'a" where
  "Execute send method url r =
     (if isMultiPart r \<and> (method = GET \<or> method = DELETE)
      then Inl (Err (''Multipart content is not allowed in HTTP verb ['' @ method @ '']''))
      else Inr (send (r\<lparr>Method := method, URL := url\<rparr>)))"

subsection \<open>Redirect policies\<close>

text \<open>
  Modelled from the spec: the redirect policies and the redirect loop of the transport
  are declared in other files. A policy is a checker on the proposed next request (its
  path) and the requests already sent for the call, the first one included; a
  rejection ends the call with an error that cites the path of the request that was
  not sent. No-redirect rejects outright. Flexible(maxHops) compares the number of
  requests already sent against the limit: this is the counting under which
  \<^verbatim>\<open>TestNoAutoRedirect\<close> (from \<^verbatim>\<open>/redirect-1\<close>, the error cites \<^verbatim>\<open>/redirect-2\<close>) and
  \<^verbatim>\<open>TestClientRedirectPolicy\<close> (limit 20, from \<^verbatim>\<open>/redirect-1\<close>, the error cites
  \<^verbatim>\<open>/redirect-21\<close>) both hold.
\<close>

type_synonym RedirectPolicy = "string \<Rightarrow> string list \<Rightarrow> error option"

definition NoRedirectPolicy :: RedirectPolicy where
  "NoRedirectPolicy req via = Some (Err ''Auto redirect is disabled'')"

definition FlexibleRedirectPolicy :: "nat \<Rightarrow> RedirectPolicy" where
  "FlexibleRedirectPolicy noOfRedirect req via =
     (if length via \<ge> noOfRedirect
      then Some (Err (''Stopped after '' @ showNat noOfRedirect @ '' redirects''))
      else None)"

text \<open>
  A GET of \<open>req\<close> against a server that answers each request with a redirect to the
  next path of \<open>chain\<close> and the last one with a final response. The result is the list
  of requests sent, and the error of the call or the path that answered.
\<close>

fun doGet :: "RedirectPolicy \<Rightarrow> string list \<Rightarrow> string \<Rightarrow> string list \<Rightarrow> string list \<times> (error + string)" where
  "doGet policy via req [] = (via @ [req], Inr req)"
| "doGet policy via req (next # chain) =
     (case policy next (via @ [req]) of
        Some (Err msg) \<Rightarrow> (via @ [req], Inl (Err (''Get '' @ next @ '': '' @ msg)))
      | None \<Rightarrow> doGet policy (via @ [req]) next chain)"

definition redirectsFollowed :: "string list \<times> (error + string) \<Rightarrow> nat" where
  "redirectsFollowed out = length (fst out) - 1"

subsection \<open>A concrete environment for the worked examples\<close>

text \<open>
  The examples below run the middleware on concrete clients and requests. They need
  one instance of the environment; it treats the inputs of the examples as the Go
  library does: header keys of letters and hyphens, URLs of the form
  \<^verbatim>\<open>scheme://host/path?query\<close>, query keys and values of letters, digits, underscores
  and spaces (a space is encoded as a plus sign, the keys are encoded in sorted
  order), blank strings of spaces, and one file on the file system. A value is the
  text the encoders produce for it, and decoding stores the text received; an empty
  text cannot be decoded.
\<close>

definition toUpper :: "char \<Rightarrow> char" where
  "toUpper c =
     (case map_of (zip ''abcdefghijklmnopqrstuvwxyz'' ''ABCDEFGHIJKLMNOPQRSTUVWXYZ'') c of
        Some d \<Rightarrow> d | None \<Rightarrow> c)"

definition toLower :: "char \<Rightarrow> char" where
  "toLower c =
     (case map_of (zip ''ABCDEFGHIJKLMNOPQRSTUVWXYZ'' ''abcdefghijklmnopqrstuvwxyz'') c of
        Some d \<Rightarrow> d | None \<Rightarrow> c)"

fun canonicalKey :: "bool \<Rightarrow> string \<Rightarrow> string" where
  "canonicalKey upper [] = []"
| "canonicalKey upper (c # cs) =
     (if upper then toUpper c else toLower c) # canonicalKey (c = CHR ''-'') cs"

definition exampleParse :: "string \<Rightarrow> error + url" where
  "exampleParse s =
     (let scheme = takeWhile (\<lambda>c. c \<noteq> CHR '':'') s;
          rest = dropWhile (\<lambda>c. c \<noteq> CHR '':'') s;
          (scheme, host, pathq) =
             (if take 3 rest = ''://''
              then (scheme, takeWhile (\<lambda>c. c \<noteq> CHR ''/'') (drop 3 rest),
                    dropWhile (\<lambda>c. c \<noteq> CHR ''/'') (drop 3 rest))
              else ([], [], s))
      in if CHR '' '' \<in> set s then Inl (Err (''parse '' @ s @ '': invalid character in URL''))
         else Inr \<lparr>Scheme = scheme, Opaque = [], Host = host,
                   Path = takeWhile (\<lambda>c. c \<noteq> CHR ''?'') pathq,
                   RawQuery = drop 1 (dropWhile (\<lambda>c. c \<noteq> CHR ''?'') pathq),
                   Fragment = []\<rparr>)"

definition exampleString :: "url \<Rightarrow> string" where
  "exampleString u =
     (if Scheme u = [] then [] else Scheme u @ ''://'') @ Host u @ Path u
       @ (if RawQuery u = [] then [] else ''?'' @ RawQuery u)"

fun splitOn :: "char \<Rightarrow> string \<Rightarrow> string list" where
  "splitOn sep [] = [[]]"
| "splitOn sep (c # cs) =
     (if c = sep then [] # splitOn sep cs
      else (case splitOn sep cs of [] \<Rightarrow> [[c]] | w # ws \<Rightarrow> (c # w) # ws))"

fun joinWith :: "string \<Rightarrow> string list \<Rightarrow> string" where
  "joinWith sep [] = []"
| "joinWith sep [w] = w"
| "joinWith sep (w # ws) = w @ sep @ joinWith sep ws"

definition exampleParseQuery :: "string \<Rightarrow> Values" where
  "exampleParseQuery s =
     fold (\<lambda>kv q. let k = takeWhile (\<lambda>c. c \<noteq> CHR ''='') kv;
                      v = drop 1 (dropWhile (\<lambda>c. c \<noteq> CHR ''='') kv)
                  in AList.update k (case map_of q k of None \<Rightarrow> [v] | Some vs \<Rightarrow> vs @ [v]) q)
       (filter (\<lambda>kv. kv \<noteq> []) (splitOn CHR ''&'' s)) []"

definition exampleEscape :: "string \<Rightarrow> string" where
  "exampleEscape s = map (\<lambda>c. if c = CHR '' '' then CHR ''+'' else c) s"

definition exampleEncode :: "Values \<Rightarrow> string" where
  "exampleEncode q =
     joinWith ''&''
       (concat (map (\<lambda>(k, vs). map (\<lambda>v. exampleEscape k @ ''='' @ exampleEscape v) vs)
                  (sort_key fst q)))"

definition exampleDetect :: "string body \<Rightarrow> string" where
  "exampleDetect b =
     (case b of
        BodyStruct _ \<Rightarrow> ''application/json; charset=utf-8''
      | BodyMap _ \<Rightarrow> ''application/json; charset=utf-8''
      | _ \<Rightarrow> ''text/plain; charset=utf-8'')"

definition exampleJSON :: "string body \<Rightarrow> bytes option \<times> error option" where
  "exampleJSON b =
     (case b of
        BodyStruct v \<Rightarrow> (Some v, None)
      | BodyMap v \<Rightarrow> (Some v, None)
      | _ \<Rightarrow> (None, Some (Err ''json: unsupported type'')))"

definition exampleXML :: "string body \<Rightarrow> bytes option \<times> error option" where
  "exampleXML b =
     (case b of
        BodyStruct v \<Rightarrow> (Some v, None)
      | _ \<Rightarrow> (None, Some (Err ''xml: unsupported type'')))"

definition exampleUnmarshal :: "string \<Rightarrow> bytes \<Rightarrow> string \<Rightarrow> string \<times> error option" where
  "exampleUnmarshal contentType b d =
     (if b = [] then (d, Some (Err ''EOF'')) else (b, None))"

definition exampleReadFile :: "string \<Rightarrow> error + bytes" where
  "exampleReadFile path =
     (if path = ''/test-data/text-file.txt'' then Inr ''some text''
      else Inl (Err (''open '' @ path @ '': no such file or directory'')))"

definition exampleEnv :: "(string, string) env" where
  "exampleEnv =
     \<lparr>CanonicalHeaderKey = canonicalKey True,
      urlParse = exampleParse,
      urlString = exampleString,
      ParseQuery = exampleParseQuery,
      Encode = exampleEncode,
      userAgent = ''go-resty v0.1 - https://github.com/go-resty/resty'',
      IsStringEmpty = (\<lambda>s. filter (\<lambda>c. c \<noteq> CHR '' '') s = []),
      IsJSONType = (\<lambda>ct. prefix ''application/json'' ct \<or> prefix ''text/json'' ct),
      IsXMLType = (\<lambda>ct. prefix ''application/xml'' ct \<or> prefix ''text/xml'' ct),
      isPayloadSupported = (\<lambda>m. m = ''POST'' \<or> m = ''PUT'' \<or> m = ''PATCH''),
      DetectContentType = exampleDetect,
      jsonMarshal = exampleJSON,
      xmlMarshal = exampleXML,
      Unmarshal = exampleUnmarshal,
      reflectNew = (\<lambda>t. []),
      readFile = exampleReadFile,
      FormDataContentType = ''multipart/form-data; boundary=0123456789abcdef'',
      writerClose = (\<lambda>w. None),
      multipartLen = (\<lambda>w. 128 * length w)\<rparr>"

text \<open>A Client and a Request with nothing set.\<close>

definition newClient :: "string client" where
  "newClient =
     \<lparr>HostURL = [], client.QueryParam = [], client.FormData = [], client.Header = [],
      client.Error = None, client.setContentLength = False\<rparr>"

definition newRequest :: "string request" where
  "newRequest =
     \<lparr>URL = [], Method = [], request.QueryParam = [], request.FormData = [],
      request.Header = [], request.Body = None, Result = None, request.Error = None,
      isMultiPart = False, isFormData = False, request.setContentLength = False,
      bodyBuf = None\<rparr>"

subsection \<open>Example clients, requests and responses\<close>










text \<open>Responses as the test servers of the package send them.\<close>

definition responseOK :: "string response" where
  "responseOK =
     \<lparr>StatusCode = 200,
      response.Header = [(''Content-Type'', [''application/xml''])],
      response.Body =
        ''<AuthSuccess><Id>success</Id><Message>login successful</Message></AuthSuccess>'',
      Request = newRequest\<lparr>Result := Some []\<rparr>\<rparr>"

definition responseUnauthorized :: "string response" where
  "responseUnauthorized =
     \<lparr>StatusCode = 401,
      response.Header =
        [(''Content-Type'', [''application/xml'']), (''Www-Authenticate'', [''Protected Realm''])],
      response.Body =
        ''<AuthError><Id>unauthorized</Id><Message>Invalid credentials</Message></AuthError>'',
      Request = newRequest\<rparr>"

definition responseEmpty :: "string response" where
  "responseEmpty =
     \<lparr>StatusCode = 200,
      response.Header = [(''Content-Type'', [''application/xml''])],
      response.Body = [],
      Request = newRequest\<lparr>Result := Some ''zero value''\<rparr>\<rparr>"

definition responseRedirect :: "string response" where
  "responseRedirect =
     \<lparr>StatusCode = 307,
      response.Header = [(''Content-Type'', [''application/xml'']), (''Location'', [''/redirect-2''])],
      response.Body = ''<a href=/redirect-2>Temporary Redirect</a>'',
      Request = newRequest\<lparr>Result := Some [], request.Error := Some []\<rparr>\<rparr>"

definition responsePlain :: "string response" where
  "responsePlain =
     \<lparr>StatusCode = 200,
      response.Header = [(''Content-Type'', [''text/plain; charset=utf-8''])],
      response.Body = ''TestGet: text response'',
      Request = newRequest\<lparr>Result := Some [], request.Error := Some []\<rparr>\<rparr>"

text \<open>A Client with a registered error shape.\<close>

definition clientE :: "string client" where
  "clientE = newClient\<lparr>client.Error := Some ''AuthError''\<rparr>"

text \<open>Requests with a body, and requests without one that ask for a content length.\<close>

definition requestXMLMap :: "string request" where
  "requestXMLMap =
     newRequest\<lparr>Method := ''POST'',
       request.Header := [(''Content-Type'', [''application/xml''])],
       request.Body := Some (BodyMap ''{Username:testuser,Password:testpass}'')\<rparr>"

definition requestXMLStruct :: "string request" where
  "requestXMLStruct =
     newRequest\<lparr>Method := ''POST'',
       request.Header := [(''Content-Type'', [''application/xml''])],
       request.Body :=
         Some (BodyStruct ''<User><Username>testuser</Username><Password>testpass</Password></User>''),
       request.setContentLength := True\<rparr>"

definition requestJSONMap :: "string request" where
  "requestJSONMap =
     newRequest\<lparr>Method := ''POST'',
       request.Body := Some (BodyMap ''{username:testuser,password:testpass}'')\<rparr>"

definition requestPlainString :: "string request" where
  "requestPlainString =
     newRequest\<lparr>Method := ''PUT'',
       request.Body := Some (BodyString ''This is plain text body to server'')\<rparr>"

definition requestNilBytes :: "string request" where
  "requestNilBytes =
     newRequest\<lparr>Method := ''POST'',
       request.Header := [(''Content-Type'', [''text/plain; charset=utf-8''])],
       request.Body := Some (BodyBytes None)\<rparr>"

definition requestGetXMLMap :: "string request" where
  "requestGetXMLMap =
     newRequest\<lparr>Method := ''GET'',
       request.Header := [(''Content-Type'', [''application/xml''])],
       request.Body := Some (BodyMap ''{Username:testuser,Password:testpass}'')\<rparr>"

definition requestGetLength :: "string request" where
  "requestGetLength = newRequest\<lparr>Method := ''GET'', request.setContentLength := True\<rparr>"

definition requestPostLength :: "string request" where
  "requestPostLength = newRequest\<lparr>Method := ''POST'', request.setContentLength := True\<rparr>"




text \<open>
  The redirect server of the tests answers \<^verbatim>\<open>/redirect-k\<close> with a redirect to the next
  number; these are the first \<open>n\<close> targets after \<^verbatim>\<open>/redirect-1\<close>.
\<close>

definition redirectTargets :: "nat \<Rightarrow> string list" where
  "redirectTargets n = map (\<lambda>i. ''/redirect-'' @ showNat i) [2..<n + 2]"

section \<open>Properties\<close>

subsection \<open>Merging Client defaults and Request settings\<close>




lemma mergedQuery_URL [simp]:
  "mergedQuery env c (r\<lparr>URL := x\<rparr>) u = mergedQuery env c r u"
  by (simp add: mergedQuery_def)
















subsection \<open>Parsing the response body\<close>

lemma ct_Request [simp]: "ct env (res\<lparr>Request := x\<rparr>) = ct env res"
  by (simp add: ct_def)

lemma consideredAsResult_success:
  assumes "200 \<le> StatusCode res" and "StatusCode res \<le> 299"
    and "Result (Request res) = Some d"
  shows "consideredAsResult env res =
           (res\<lparr>Request := (Request res)\<lparr>Result := Some (fst
               (Unmarshal env (ct env res) (response.Body res) d))\<rparr>\<rparr>,
            snd (Unmarshal env (ct env res) (response.Body res) d))"
proof -
  have "StatusCode res > 199" "StatusCode res < 300" using assms(1,2) by simp_all
  then show ?thesis
    using assms(3) by (simp add: consideredAsResult_def split: prod.splits)
qed

lemma consideredAsResult_other:
  assumes "\<not> (200 \<le> StatusCode res \<and> StatusCode res \<le> 299)"
  shows "consideredAsResult env res = (res, None)"
proof -
  have "\<not> (StatusCode res > 199 \<and> StatusCode res < 300)" using assms by arith
  then show ?thesis unfolding consideredAsResult_def by (rule if_not_P)
qed

lemma consideredAsError_other:
  assumes "StatusCode res \<le> 399"
  shows "consideredAsError env c (res, err) = (res, err)"
proof -
  have "\<not> StatusCode res > 399" using assms by simp
  then show ?thesis by (simp add: consideredAsError_def)
qed

lemma consideredAsError_failure:
  assumes "400 \<le> StatusCode res"
  shows "consideredAsError env c (res, err) =
           (case request.Error (Request res) of
              Some d \<Rightarrow>
                (res\<lparr>Request := (Request res)\<lparr>request.Error := Some (fst
                    (Unmarshal env (ct env res) (response.Body res) d))\<rparr>\<rparr>,
                 snd (Unmarshal env (ct env res) (response.Body res) d))
            | None \<Rightarrow>
                (case client.Error c of
                   Some t \<Rightarrow>
                     (res\<lparr>Request := (Request res)
                           \<lparr>request.Error := Some (fst
                               (Unmarshal env (ct env res) (response.Body res) (reflectNew env t)))\<rparr>\<rparr>,
                      snd (Unmarshal env (ct env res) (response.Body res) (reflectNew env t)))
                 | None \<Rightarrow> (res, err)))"
proof -
  have "StatusCode res > 399" using assms by simp
  then show ?thesis
    by (simp add: consideredAsError_def Let_def split: prod.splits option.splits)
qed

lemma consideredAsResult_frame:
  "StatusCode (fst (consideredAsResult env res)) = StatusCode res
   \<and> response.Header (fst (consideredAsResult env res)) = response.Header res
   \<and> response.Body (fst (consideredAsResult env res)) = response.Body res"
  by (simp add: consideredAsResult_def split: prod.splits option.splits)

lemma consideredAsError_frame:
  "StatusCode (fst (consideredAsError env c (res, err))) = StatusCode res
   \<and> response.Header (fst (consideredAsError env c (res, err))) = response.Header res
   \<and> response.Body (fst (consideredAsError env c (res, err))) = response.Body res"
  by (simp add: consideredAsError_def Let_def split: prod.splits option.splits)

lemma parseResponseBody_success:
  assumes "IsJSONType env (ct env res) \<or> IsXMLType env (ct env res)"
    and "200 \<le> StatusCode res" and "StatusCode res \<le> 299"
    and "Result (Request res) = Some d"
  shows "parseResponseBody env c res =
           (res\<lparr>Request := (Request res)\<lparr>Result := Some (fst
               (Unmarshal env (ct env res) (response.Body res) d))\<rparr>\<rparr>,
            snd (Unmarshal env (ct env res) (response.Body res) d))"
proof -
  have "parseResponseBody env c res = consideredAsError env c (consideredAsResult env res)"
    using assms(1) by (simp add: parseResponseBody_def)
  also have "\<dots> = consideredAsError env c
         (res\<lparr>Request := (Request res)\<lparr>Result := Some (fst
             (Unmarshal env (ct env res) (response.Body res) d))\<rparr>\<rparr>,
          snd (Unmarshal env (ct env res) (response.Body res) d))"
    using assms(2-4) by (simp add: consideredAsResult_success)
  also have "\<dots> = (res\<lparr>Request := (Request res)\<lparr>Result := Some (fst
      (Unmarshal env (ct env res) (response.Body res) d))\<rparr>\<rparr>,
            snd (Unmarshal env (ct env res) (response.Body res) d))"
    using assms(3) by (intro consideredAsError_other) simp
  finally show ?thesis .
qed

lemma parseResponseBody_failure:
  assumes "IsJSONType env (ct env res) \<or> IsXMLType env (ct env res)"
    and "400 \<le> StatusCode res"
  shows "parseResponseBody env c res =
           (case request.Error (Request res) of
              Some d \<Rightarrow>
                (res\<lparr>Request := (Request res)\<lparr>request.Error := Some (fst
                    (Unmarshal env (ct env res) (response.Body res) d))\<rparr>\<rparr>,
                 snd (Unmarshal env (ct env res) (response.Body res) d))
            | None \<Rightarrow>
                (case client.Error c of
                   Some t \<Rightarrow>
                     (res\<lparr>Request := (Request res)
                           \<lparr>request.Error := Some (fst
                               (Unmarshal env (ct env res) (response.Body res) (reflectNew env t)))\<rparr>\<rparr>,
                      snd (Unmarshal env (ct env res) (response.Body res) (reflectNew env t)))
                 | None \<Rightarrow> (res, None)))"
proof -
  have "parseResponseBody env c res = consideredAsError env c (consideredAsResult env res)"
    using assms(1) by (simp add: parseResponseBody_def)
  also have "consideredAsResult env res = (res, None)"
    using assms(2) by (intro consideredAsResult_other) simp
  finally show ?thesis using assms(2) by (simp add: consideredAsError_failure)
qed

lemma parseResponseBody_untouched:
  assumes "(300 \<le> StatusCode res \<and> StatusCode res \<le> 399)
           \<or> (\<not> IsJSONType env (ct env res) \<and> \<not> IsXMLType env (ct env res))"
  shows "parseResponseBody env c res = (res, None)"
proof -
  from assms consider "300 \<le> StatusCode res \<and> StatusCode res \<le> 399"
    | "\<not> IsJSONType env (ct env res) \<and> \<not> IsXMLType env (ct env res)" by blast
  then show ?thesis
  proof cases
    case 1
    then have "consideredAsResult env res = (res, None)"
      by (intro consideredAsResult_other) simp
    moreover have "consideredAsError env c (res, None) = (res, None)"
      using 1 by (intro consideredAsError_other) simp
    ultimately show ?thesis by (simp add: parseResponseBody_def)
  next
    case 2
    then show ?thesis by (simp add: parseResponseBody_def)
  qed
qed

lemma parseResponseBody_frame:
  "StatusCode (fst (parseResponseBody env c res)) = StatusCode res
   \<and> response.Header (fst (parseResponseBody env c res)) = response.Header res
   \<and> response.Body (fst (parseResponseBody env c res)) = response.Body res"
proof (cases "IsJSONType env (ct env res) \<or> IsXMLType env (ct env res)")
  case True
  obtain res' err where r: "consideredAsResult env res = (res', err)"
    by (cases "consideredAsResult env res")
  from consideredAsResult_frame [of env res] r
  have "StatusCode res' = StatusCode res \<and> response.Header res' = response.Header res
        \<and> response.Body res' = response.Body res" by simp
  with consideredAsError_frame [of env c res' err] True r show ?thesis
    by (simp add: parseResponseBody_def)
next
  case False
  then show ?thesis by (simp add: parseResponseBody_def)
qed

text \<open>
  The runner on a chain in two pieces: the second piece runs on the response that the
  first piece returns, unless the first piece has failed.
\<close>

lemma runAfterResponse_append:
  "runAfterResponse (fs @ gs) c res =
     (case runAfterResponse fs c res of
        (res', Some err) \<Rightarrow> (res', Some err)
      | (res', None) \<Rightarrow> runAfterResponse gs c res')"
  by (induction fs arbitrary: res) (auto split: prod.splits option.splits)

lemma runAfterResponse_failing_step:
  assumes "runAfterResponse fs c res0 = (res, None)"
    and "f c res = (res', Some err)"
  shows "runAfterResponse (fs @ f # gs) c res0 = (res', Some err)"
  using assms by (simp add: runAfterResponse_append)

text \<open>
  Claim C2. For a response whose Content-Type header is recognised as JSON or XML,
  whose status code lies in 200 to 299 and whose request carries a result target \<open>d\<close>,
  \<^verbatim>\<open>parseResponseBody\<close> calls the deserializer \<^verbatim>\<open>Unmarshal\<close> on the Content-Type value, the
  body bytes of the response and \<open>d\<close>: the result target of the response it returns is
  the target as that call leaves it, nothing else of the response changes, and the
  error it returns is the error of that call. So when the deserialization succeeds,
  the error returned is \<^verbatim>\<open>nil\<close>.
\<close>

theorem result_target_is_populated:
  assumes "IsJSONType env (header_get env (response.Header res) hdrContentTypeKey)
           \<or> IsXMLType env (header_get env (response.Header res) hdrContentTypeKey)"
    and "200 \<le> StatusCode res" and "StatusCode res \<le> 299"
    and "Result (Request res) = Some d"
  shows "parseResponseBody env c res =
           (res\<lparr>Request := (Request res)\<lparr>Result := Some (fst
               (Unmarshal env (header_get env (response.Header res) hdrContentTypeKey)
                  (response.Body res) d))\<rparr>\<rparr>,
            snd (Unmarshal env (header_get env (response.Header res) hdrContentTypeKey)
                   (response.Body res) d))
         \<and> (snd (Unmarshal env (header_get env (response.Header res) hdrContentTypeKey)
                   (response.Body res) d) = None
              \<longrightarrow> snd (parseResponseBody env c res) = None)"
proof -
  have "IsJSONType env (ct env res) \<or> IsXMLType env (ct env res)"
    using assms(1) by (simp add: ct_def)
  from parseResponseBody_success [OF this assms(2-4)] show ?thesis
    by (simp add: ct_def)
qed

text \<open>
  Claim C2 at a 200 response with an XML body and an empty result target, in an
  environment whose deserializer succeeds on a body that is not empty.
\<close>

theorem result_target_is_populated_witness:
  "Unmarshal exampleEnv ''application/xml''
       ''<AuthSuccess><Id>success</Id><Message>login successful</Message></AuthSuccess>'' [] =
     (''<AuthSuccess><Id>success</Id><Message>login successful</Message></AuthSuccess>'', None)
   \<and> parseResponseBody exampleEnv newClient responseOK =
     (responseOK\<lparr>Request := newRequest\<lparr>Result := Some
        ''<AuthSuccess><Id>success</Id><Message>login successful</Message></AuthSuccess>''\<rparr>\<rparr>,
      None)"
proof -
  have h: "IsJSONType exampleEnv (header_get exampleEnv (response.Header responseOK) hdrContentTypeKey)
           \<or> IsXMLType exampleEnv (header_get exampleEnv (response.Header responseOK) hdrContentTypeKey)"
    "200 \<le> StatusCode responseOK" "StatusCode responseOK \<le> 299"
    "Result (Request responseOK) = Some []"
    by code_simp+
  have v: "header_get exampleEnv (response.Header responseOK) hdrContentTypeKey = ''application/xml''"
    "response.Body responseOK =
       ''<AuthSuccess><Id>success</Id><Message>login successful</Message></AuthSuccess>''"
    by code_simp+
  have d: "Unmarshal exampleEnv ''application/xml''
       ''<AuthSuccess><Id>success</Id><Message>login successful</Message></AuthSuccess>'' [] =
     (''<AuthSuccess><Id>success</Id><Message>login successful</Message></AuthSuccess>'', None)"
    by code_simp
  have r: "Request responseOK = newRequest\<lparr>Result := Some []\<rparr>"
    by (simp add: responseOK_def)
  from result_target_is_populated [OF h, of newClient]
  have "parseResponseBody exampleEnv newClient responseOK =
     (responseOK\<lparr>Request := newRequest\<lparr>Result := Some
        ''<AuthSuccess><Id>success</Id><Message>login successful</Message></AuthSuccess>''\<rparr>\<rparr>,
      None)"
    unfolding v d r by simp
  with d show ?thesis by (rule conjI)
qed

text \<open>
  Claim C3. For a response whose Content-Type header is recognised as JSON or XML and
  whose status code is at least 400, the error target is: the per-call error target if
  the request has one; otherwise a fresh value of the Client's registered error shape
  if there is one; otherwise nothing is deserialized and the response is returned as it
  is, without error. \<^verbatim>\<open>parseResponseBody\<close> calls the deserializer \<^verbatim>\<open>Unmarshal\<close> on the
  Content-Type value, the body bytes of the response and the chosen target: the error
  target of the response it returns is the target as that call leaves it, nothing else
  of the response changes, and the error it returns is the error of that call. So when
  the deserialization succeeds, the error returned is \<^verbatim>\<open>nil\<close>.
\<close>

theorem error_target_is_resolved:
  assumes "IsJSONType env (header_get env (response.Header res) hdrContentTypeKey)
           \<or> IsXMLType env (header_get env (response.Header res) hdrContentTypeKey)"
    and "400 \<le> StatusCode res"
  shows "(request.Error (Request res) = Some d \<longrightarrow>
            parseResponseBody env c res =
              (res\<lparr>Request := (Request res)\<lparr>request.Error := Some (fst
                  (Unmarshal env (header_get env (response.Header res) hdrContentTypeKey)
                     (response.Body res) d))\<rparr>\<rparr>,
               snd (Unmarshal env (header_get env (response.Header res) hdrContentTypeKey)
                      (response.Body res) d))
            \<and> (snd (Unmarshal env (header_get env (response.Header res) hdrContentTypeKey)
                      (response.Body res) d) = None
                 \<longrightarrow> snd (parseResponseBody env c res) = None))
       \<and> (request.Error (Request res) = None \<and> client.Error c = Some t \<longrightarrow>
            parseResponseBody env c res =
              (res\<lparr>Request := (Request res)\<lparr>request.Error := Some (fst
                  (Unmarshal env (header_get env (response.Header res) hdrContentTypeKey)
                     (response.Body res) (reflectNew env t)))\<rparr>\<rparr>,
               snd (Unmarshal env (header_get env (response.Header res) hdrContentTypeKey)
                      (response.Body res) (reflectNew env t)))
            \<and> (snd (Unmarshal env (header_get env (response.Header res) hdrContentTypeKey)
                      (response.Body res) (reflectNew env t)) = None
                 \<longrightarrow> snd (parseResponseBody env c res) = None))
       \<and> (request.Error (Request res) = None \<and> client.Error c = None \<longrightarrow>
            parseResponseBody env c res = (res, None))"
proof -
  have "IsJSONType env (ct env res) \<or> IsXMLType env (ct env res)"
    using assms(1) by (simp add: ct_def)
  from parseResponseBody_failure [OF this assms(2), of c] show ?thesis
    by (simp add: ct_def)
qed

text \<open>
  Claim C3 at a 401 response with an XML body, in an environment whose deserializer
  succeeds on a body that is not empty: with a per-call error target (and a registered
  error shape on the Client, which is then not used), with the Client's registered
  error shape only, and with neither.
\<close>

theorem error_target_is_resolved_witness:
  "Unmarshal exampleEnv ''application/xml''
       ''<AuthError><Id>unauthorized</Id><Message>Invalid credentials</Message></AuthError>''
       ''zero value'' =
     (''<AuthError><Id>unauthorized</Id><Message>Invalid credentials</Message></AuthError>'', None)
   \<and> parseResponseBody exampleEnv clientE
       (responseUnauthorized\<lparr>Request := newRequest\<lparr>request.Error := Some ''zero value''\<rparr>\<rparr>) =
     (responseUnauthorized\<lparr>Request := newRequest\<lparr>request.Error := Some
        ''<AuthError><Id>unauthorized</Id><Message>Invalid credentials</Message></AuthError>''\<rparr>\<rparr>,
      None)
   \<and> parseResponseBody exampleEnv clientE responseUnauthorized =
     (responseUnauthorized\<lparr>Request := newRequest\<lparr>request.Error := Some
        ''<AuthError><Id>unauthorized</Id><Message>Invalid credentials</Message></AuthError>''\<rparr>\<rparr>,
      None)
   \<and> parseResponseBody exampleEnv newClient responseUnauthorized = (responseUnauthorized, None)"
proof -
  let ?res = "responseUnauthorized\<lparr>Request := newRequest\<lparr>request.Error := Some ''zero value''\<rparr>\<rparr>"
  let ?body = "''<AuthError><Id>unauthorized</Id><Message>Invalid credentials</Message></AuthError>''"
  have h1: "IsJSONType exampleEnv (header_get exampleEnv (response.Header ?res) hdrContentTypeKey)
            \<or> IsXMLType exampleEnv (header_get exampleEnv (response.Header ?res) hdrContentTypeKey)"
    "400 \<le> StatusCode ?res"
    by code_simp+
  have h2: "IsJSONType exampleEnv
              (header_get exampleEnv (response.Header responseUnauthorized) hdrContentTypeKey)
            \<or> IsXMLType exampleEnv
              (header_get exampleEnv (response.Header responseUnauthorized) hdrContentTypeKey)"
    "400 \<le> StatusCode responseUnauthorized"
    by code_simp+
  have e: "request.Error (Request ?res) = Some ''zero value''"
    "request.Error (Request responseUnauthorized) = None"
    "client.Error clientE = Some ''AuthError''" "client.Error newClient = None"
    by code_simp+
  have v: "header_get exampleEnv (response.Header ?res) hdrContentTypeKey = ''application/xml''"
    "header_get exampleEnv (response.Header responseUnauthorized) hdrContentTypeKey
       = ''application/xml''"
    "response.Body ?res = ?body" "response.Body responseUnauthorized = ?body"
    by code_simp+
  have d: "Unmarshal exampleEnv ''application/xml'' ?body ''zero value'' = (?body, None)"
    "Unmarshal exampleEnv ''application/xml'' ?body (reflectNew exampleEnv ''AuthError'')
       = (?body, None)"
    by code_simp+
  have r: "Request responseUnauthorized = newRequest"
    "Request ?res = newRequest\<lparr>request.Error := Some ''zero value''\<rparr>"
    by (simp_all add: responseUnauthorized_def)
  note t1 = error_target_is_resolved [OF h1, of "''zero value''" clientE "''AuthError''",
      unfolded v d, THEN conjunct1]
  note t2 = error_target_is_resolved [OF h2, of "''zero value''" clientE "''AuthError''",
      unfolded v d, THEN conjunct2, THEN conjunct1]
  note t3 = error_target_is_resolved [OF h2, of "''zero value''" newClient "''AuthError''",
      THEN conjunct2, THEN conjunct2]
  have 1: "parseResponseBody exampleEnv clientE ?res =
     (responseUnauthorized\<lparr>Request := newRequest\<lparr>request.Error := Some ?body\<rparr>\<rparr>, None)"
    using t1 e(1) r(2) by simp
  have 2: "parseResponseBody exampleEnv clientE responseUnauthorized =
     (responseUnauthorized\<lparr>Request := newRequest\<lparr>request.Error := Some ?body\<rparr>\<rparr>, None)"
    using t2 e(2,3) r(1) by simp
  have 3: "parseResponseBody exampleEnv newClient responseUnauthorized
             = (responseUnauthorized, None)"
    using t3 e(2,4) by simp
  from d(1) 1 2 3 show ?thesis by (intro conjI)
qed

text \<open>
  Claim C4. Let the post-response chain hold \<^verbatim>\<open>parseResponseBody\<close> after some steps
  that have run without error and have handed on a response whose Content-Type header
  is recognised as JSON or XML. When the deserializer \<^verbatim>\<open>Unmarshal\<close>, called on the
  Content-Type value, the body bytes of that response and the result target (status 200
  to 299) or the chosen error target (status at least 400: the per-call error target,
  else a fresh value of the Client's registered error shape), returns an error, then
  \<^verbatim>\<open>parseResponseBody\<close> returns that error, and the chain runner returns to the caller
  that error together with the response that \<^verbatim>\<open>parseResponseBody\<close> hands back, whatever
  steps come later in the chain; this response has the status code, the headers and
  the body bytes of the response that \<^verbatim>\<open>parseResponseBody\<close> was given.
\<close>

theorem decoding_failure_is_reported:
  assumes "IsJSONType env (header_get env (response.Header res) hdrContentTypeKey)
           \<or> IsXMLType env (header_get env (response.Header res) hdrContentTypeKey)"
    and "runAfterResponse before c res0 = (res, None)"
    and "(200 \<le> StatusCode res \<and> StatusCode res \<le> 299 \<and> Result (Request res) = Some d
            \<and> snd (Unmarshal env (header_get env (response.Header res) hdrContentTypeKey)
                     (response.Body res) d) = Some e)
       \<or> (400 \<le> StatusCode res \<and> request.Error (Request res) = Some d
            \<and> snd (Unmarshal env (header_get env (response.Header res) hdrContentTypeKey)
                     (response.Body res) d) = Some e)
       \<or> (400 \<le> StatusCode res \<and> request.Error (Request res) = None \<and> client.Error c = Some t
            \<and> snd (Unmarshal env (header_get env (response.Header res) hdrContentTypeKey)
                     (response.Body res) (reflectNew env t)) = Some e)"
  shows "snd (parseResponseBody env c res) = Some e
       \<and> runAfterResponse (before @ parseResponseBody env # after) c res0
           = (fst (parseResponseBody env c res), Some e)
       \<and> StatusCode (fst (parseResponseBody env c res)) = StatusCode res
       \<and> response.Header (fst (parseResponseBody env c res)) = response.Header res
       \<and> response.Body (fst (parseResponseBody env c res)) = response.Body res"
proof -
  have j: "IsJSONType env (ct env res) \<or> IsXMLType env (ct env res)"
    using assms(1) by (simp add: ct_def)
  from assms(3) have s: "snd (parseResponseBody env c res) = Some e"
  proof (elim disjE)
    assume "200 \<le> StatusCode res \<and> StatusCode res \<le> 299 \<and> Result (Request res) = Some d
            \<and> snd (Unmarshal env (header_get env (response.Header res) hdrContentTypeKey)
                     (response.Body res) d) = Some e"
    with j show ?thesis by (simp add: parseResponseBody_success ct_def)
  next
    assume "400 \<le> StatusCode res \<and> request.Error (Request res) = Some d
            \<and> snd (Unmarshal env (header_get env (response.Header res) hdrContentTypeKey)
                     (response.Body res) d) = Some e"
    with j show ?thesis by (simp add: parseResponseBody_failure ct_def)
  next
    assume "400 \<le> StatusCode res \<and> request.Error (Request res) = None \<and> client.Error c = Some t
            \<and> snd (Unmarshal env (header_get env (response.Header res) hdrContentTypeKey)
                     (response.Body res) (reflectNew env t)) = Some e"
    with j show ?thesis by (simp add: parseResponseBody_failure ct_def)
  qed
  then have "parseResponseBody env c res = (fst (parseResponseBody env c res), Some e)"
    by (simp add: prod_eq_iff)
  with assms(2)
  have "runAfterResponse (before @ parseResponseBody env # after) c res0
          = (fst (parseResponseBody env c res), Some e)"
    by (rule runAfterResponse_failing_step)
  with s show ?thesis by (simp add: parseResponseBody_frame)
qed

text \<open>
  Claim C4 in an environment whose deserializer fails on an empty body, with a step
  before \<^verbatim>\<open>parseResponseBody\<close> that changes nothing and a step after it that would
  replace the status code: at a 200 response with an XML content type, an empty body
  and a result target, and at a 401 response with an XML content type and an empty
  body on a Client with a registered error shape.
\<close>

theorem decoding_failure_is_reported_witness:
  "runAfterResponse
       [\<lambda>c res. (res, None), parseResponseBody exampleEnv, \<lambda>c res. (res\<lparr>StatusCode := 0\<rparr>, None)]
       newClient responseEmpty
     = (responseEmpty, Some (Err ''EOF''))
   \<and> runAfterResponse
       [\<lambda>c res. (res, None), parseResponseBody exampleEnv, \<lambda>c res. (res\<lparr>StatusCode := 0\<rparr>, None)]
       clientE (responseUnauthorized\<lparr>response.Body := []\<rparr>)
     = (responseUnauthorized
          \<lparr>response.Body := [], Request := newRequest\<lparr>request.Error := Some []\<rparr>\<rparr>,
        Some (Err ''EOF''))"
proof -
  let ?before = "[\<lambda>c res. (res, None)] :: (string, string) responseMiddleware list"
  let ?after = "[\<lambda>c res. (res\<lparr>StatusCode := 0\<rparr>, None)] :: (string, string) responseMiddleware list"
  let ?res = "responseUnauthorized\<lparr>response.Body := []\<rparr>"
  have h1: "IsJSONType exampleEnv (header_get exampleEnv (response.Header responseEmpty) hdrContentTypeKey)
            \<or> IsXMLType exampleEnv (header_get exampleEnv (response.Header responseEmpty) hdrContentTypeKey)"
    by code_simp
  have b1: "runAfterResponse ?before newClient responseEmpty = (responseEmpty, None)"
    by simp
  have p1: "(200 \<le> StatusCode responseEmpty \<and> StatusCode responseEmpty \<le> 299
            \<and> Result (Request responseEmpty) = Some ''zero value''
            \<and> snd (Unmarshal exampleEnv
                     (header_get exampleEnv (response.Header responseEmpty) hdrContentTypeKey)
                     (response.Body responseEmpty) ''zero value'') = Some (Err ''EOF''))
       \<or> (400 \<le> StatusCode responseEmpty
            \<and> request.Error (Request responseEmpty) = Some ''zero value''
            \<and> snd (Unmarshal exampleEnv
                     (header_get exampleEnv (response.Header responseEmpty) hdrContentTypeKey)
                     (response.Body responseEmpty) ''zero value'') = Some (Err ''EOF''))
       \<or> (400 \<le> StatusCode responseEmpty \<and> request.Error (Request responseEmpty) = None
            \<and> client.Error newClient = Some ''AuthError''
            \<and> snd (Unmarshal exampleEnv
                     (header_get exampleEnv (response.Header responseEmpty) hdrContentTypeKey)
                     (response.Body responseEmpty) (reflectNew exampleEnv ''AuthError''))
                = Some (Err ''EOF''))"
    by code_simp
  have h2: "IsJSONType exampleEnv (header_get exampleEnv (response.Header ?res) hdrContentTypeKey)
            \<or> IsXMLType exampleEnv (header_get exampleEnv (response.Header ?res) hdrContentTypeKey)"
    by code_simp
  have b2: "runAfterResponse ?before clientE ?res = (?res, None)"
    by simp
  have p2: "(200 \<le> StatusCode ?res \<and> StatusCode ?res \<le> 299
            \<and> Result (Request ?res) = Some ''zero value''
            \<and> snd (Unmarshal exampleEnv
                     (header_get exampleEnv (response.Header ?res) hdrContentTypeKey)
                     (response.Body ?res) ''zero value'') = Some (Err ''EOF''))
       \<or> (400 \<le> StatusCode ?res
            \<and> request.Error (Request ?res) = Some ''zero value''
            \<and> snd (Unmarshal exampleEnv
                     (header_get exampleEnv (response.Header ?res) hdrContentTypeKey)
                     (response.Body ?res) ''zero value'') = Some (Err ''EOF''))
       \<or> (400 \<le> StatusCode ?res \<and> request.Error (Request ?res) = None
            \<and> client.Error clientE = Some ''AuthError''
            \<and> snd (Unmarshal exampleEnv
                     (header_get exampleEnv (response.Header ?res) hdrContentTypeKey)
                     (response.Body ?res) (reflectNew exampleEnv ''AuthError''))
                = Some (Err ''EOF''))"
    by code_simp
  have f1: "fst (parseResponseBody exampleEnv newClient responseEmpty) = responseEmpty"
    by code_simp
  have f2: "fst (parseResponseBody exampleEnv clientE ?res)
              = responseUnauthorized
                  \<lparr>response.Body := [], Request := newRequest\<lparr>request.Error := Some []\<rparr>\<rparr>"
    by code_simp
  note t1 = decoding_failure_is_reported
      [where before = "?before" and after = "?after", OF h1 b1 p1,
       THEN conjunct2, THEN conjunct1, unfolded f1]
  note t2 = decoding_failure_is_reported
      [where before = "?before" and after = "?after", OF h2 b2 p2,
       THEN conjunct2, THEN conjunct1, unfolded f2]
  from t1 have 1: "runAfterResponse
       [\<lambda>c res. (res, None), parseResponseBody exampleEnv, \<lambda>c res. (res\<lparr>StatusCode := 0\<rparr>, None)]
       newClient responseEmpty
     = (responseEmpty, Some (Err ''EOF''))"
    by simp
  from t2 have 2: "runAfterResponse
       [\<lambda>c res. (res, None), parseResponseBody exampleEnv, \<lambda>c res. (res\<lparr>StatusCode := 0\<rparr>, None)]
       clientE (responseUnauthorized\<lparr>response.Body := []\<rparr>)
     = (responseUnauthorized
          \<lparr>response.Body := [], Request := newRequest\<lparr>request.Error := Some []\<rparr>\<rparr>,
        Some (Err ''EOF''))"
    by simp
  from 1 2 show ?thesis by (rule conjI)
qed

text \<open>
  Claim C8. For a response whose status code lies in 300 to 399, and for a response
  whose content type is neither a JSON nor an XML type, \<^verbatim>\<open>parseResponseBody\<close> returns
  the response unchanged (result target, error target and body bytes included) and no
  error.
\<close>

theorem other_responses_pass_through:
  assumes "(300 \<le> StatusCode res \<and> StatusCode res \<le> 399)
           \<or> (\<not> IsJSONType env (ct env res) \<and> \<not> IsXMLType env (ct env res))"
  shows "parseResponseBody env c res = (res, None)"
  using assms by (rule parseResponseBody_untouched)

text \<open>
  Claim C8 at a 307 response with an XML content type and at a 200 response in plain
  text, both with a result and an error target, on a Client with a registered error
  shape.
\<close>

theorem other_responses_pass_through_witness:
  "parseResponseBody exampleEnv clientE responseRedirect = (responseRedirect, None)
   \<and> parseResponseBody exampleEnv clientE responsePlain = (responsePlain, None)"
proof -
  have h1: "(300 \<le> StatusCode responseRedirect \<and> StatusCode responseRedirect \<le> 399)
           \<or> (\<not> IsJSONType exampleEnv (ct exampleEnv responseRedirect)
               \<and> \<not> IsXMLType exampleEnv (ct exampleEnv responseRedirect))"
    by code_simp
  have h2: "(300 \<le> StatusCode responsePlain \<and> StatusCode responsePlain \<le> 399)
           \<or> (\<not> IsJSONType exampleEnv (ct exampleEnv responsePlain)
               \<and> \<not> IsXMLType exampleEnv (ct exampleEnv responsePlain))"
    by code_simp
  from other_responses_pass_through [OF h1] other_responses_pass_through [OF h2]
  show ?thesis by simp
qed

subsection \<open>Preparing the request body\<close>

lemma contentLength_no_buffer:
  assumes "client.setContentLength c \<or> request.setContentLength r" and "bodyBuf r = None"
  shows "contentLength env c (r, err) = Inl NilPointerDereference"
  using assms by (simp add: contentLength_def)

lemma contentLength_buffer:
  assumes "bodyBuf r = Some buf"
  shows "\<exists>r'. contentLength env c (r, err) = Inr (r', err) \<and> bodyBuf r' = Some buf"
  using assms by (simp add: contentLength_def)

lemma parseRequestBody_payload_body:
  assumes "isPayloadSupported env (Method r)"
    and "\<not> (isMultiPart r \<and> Method r \<noteq> PATCH)"
    and "client.FormData c = []" and "request.FormData r = []"
  shows "parseRequestBody env c r =
           (case (case request.Body r of Some b \<Rightarrow> requestBody env r b | None \<Rightarrow> GotoCL (r, None)) of
              Return x \<Rightarrow> Inr x | GotoCL x \<Rightarrow> contentLength env c x)"
  using assms by (cases "isMultiPart r") (simp_all add: parseRequestBody_def)

lemma parseRequestBody_no_payload:
  assumes "\<not> isPayloadSupported env (Method r)"
  shows "parseRequestBody env c r =
           contentLength env c
             (r\<lparr>request.Header := header_del env hdrContentTypeKey (request.Header r)\<rparr>, None)"
  using assms by (simp add: parseRequestBody_def)

lemma requestBody_eq:
  "\<exists>r'. requestBody env r b = intoBuffer r' (marshalBody env (effectiveContentType env r b) b)"
  by (cases "IsStringEmpty env (header_get env (request.Header r) hdrContentTypeKey)")
     (auto simp: requestBody_def effectiveContentType_def Let_def)

lemma intoBuffer_outcome:
  "marshalledBy (case intoBuffer r m of Return x \<Rightarrow> Inr x | GotoCL x \<Rightarrow> contentLength env c x) m"
proof (cases m)
  case (Pair bodyBytes err)
  show ?thesis
  proof (cases err)
    case (Some e)
    with Pair show ?thesis
      by (simp add: intoBuffer_def marshalledBy_def failsWith_def split: option.splits)
  next
    case None
    show ?thesis
    proof (cases bodyBytes)
      case N: None
      with None Pair show ?thesis
        by (simp add: intoBuffer_def marshalledBy_def failsWith_def)
    next
      case (Some bs)
      obtain r' where "contentLength env c (r\<lparr>bodyBuf := Some (Bytes bs)\<rparr>, None) = Inr (r', None)"
        and "bodyBuf r' = Some (Bytes bs)"
        using contentLength_buffer [of "r\<lparr>bodyBuf := Some (Bytes bs)\<rparr>" "Bytes bs" env c None]
        by auto
      with Some None Pair show ?thesis
        by (simp add: intoBuffer_def marshalledBy_def succeeds_def bufferOf_def)
    qed
  qed
qed

lemma parseRequestBody_marshalled:
  assumes "isPayloadSupported env (Method r)"
    and "\<not> (isMultiPart r \<and> Method r \<noteq> PATCH)"
    and "client.FormData c = []" and "request.FormData r = []"
    and "request.Body r = Some b"
  shows "marshalledBy (parseRequestBody env c r) (marshalBody env (effectiveContentType env r b) b)"
proof -
  obtain r' where "requestBody env r b = intoBuffer r' (marshalBody env (effectiveContentType env r b) b)"
    using requestBody_eq by blast
  with assms show ?thesis
    by (simp add: parseRequestBody_payload_body intoBuffer_outcome)
qed

text \<open>
  Claim C5, as amended. For a request on a verb that supports a payload, with no
  multipart content and no form fields, whose body value is not \<^verbatim>\<open>nil\<close>, body
  preparation follows this table on the effective content type and the value, in this
  order. A JSON type with a map or a struct: the value is marshalled as JSON. An XML
  type with a struct: the value is marshalled as XML. Otherwise a string, or a byte
  slice that is not \<^verbatim>\<open>nil\<close>, becomes the body as it is. Every other combination (an
  XML type with a map, a \<^verbatim>\<open>nil\<close> byte slice, a value of another type) fails with the
  error "Unsupported 'Body' type/value". A marshalled value means: the marshaller's
  error fails the call, its bytes become the body, and \<^verbatim>\<open>nil\<close> bytes are refused as
  unsupported.
\<close>

theorem body_decision_table:
  assumes "isPayloadSupported env (Method r)"
    and "\<not> (isMultiPart r \<and> Method r \<noteq> PATCH)"
    and "client.FormData c = []" and "request.FormData r = []"
    and "request.Body r = Some b"
  shows "(IsJSONType env (effectiveContentType env r b)
            \<and> (getBaseKind b = reflect_Struct \<or> getBaseKind b = reflect_Map)
          \<longrightarrow> marshalledBy (parseRequestBody env c r) (jsonMarshal env b))
       \<and> (\<not> (IsJSONType env (effectiveContentType env r b)
               \<and> (getBaseKind b = reflect_Struct \<or> getBaseKind b = reflect_Map))
            \<and> IsXMLType env (effectiveContentType env r b) \<and> getBaseKind b = reflect_Struct
          \<longrightarrow> marshalledBy (parseRequestBody env c r) (xmlMarshal env b))
       \<and> (\<not> (IsJSONType env (effectiveContentType env r b)
               \<and> (getBaseKind b = reflect_Struct \<or> getBaseKind b = reflect_Map))
            \<and> \<not> (IsXMLType env (effectiveContentType env r b) \<and> getBaseKind b = reflect_Struct)
          \<longrightarrow> (case b of
                 BodyString s \<Rightarrow>
                   succeeds (parseRequestBody env c r)
                   \<and> bufferOf (parseRequestBody env c r) = Some (Bytes s)
               | BodyBytes (Some bs) \<Rightarrow>
                   succeeds (parseRequestBody env c r)
                   \<and> bufferOf (parseRequestBody env c r) = Some (Bytes bs)
               | _ \<Rightarrow> failsWith (parseRequestBody env c r) (Err ''Unsupported 'Body' type/value'')))"
proof -
  note m = parseRequestBody_marshalled [OF assms]
  show ?thesis
  proof (intro conjI impI)
    assume "IsJSONType env (effectiveContentType env r b)
            \<and> (getBaseKind b = reflect_Struct \<or> getBaseKind b = reflect_Map)"
    with m show "marshalledBy (parseRequestBody env c r) (jsonMarshal env b)"
      by (simp add: marshalBody_def)
  next
    assume "\<not> (IsJSONType env (effectiveContentType env r b)
               \<and> (getBaseKind b = reflect_Struct \<or> getBaseKind b = reflect_Map))
            \<and> IsXMLType env (effectiveContentType env r b) \<and> getBaseKind b = reflect_Struct"
    then have "\<not> IsJSONType env (effectiveContentType env r b)"
      "IsXMLType env (effectiveContentType env r b)" "getBaseKind b = reflect_Struct"
      by auto
    then have "marshalBody env (effectiveContentType env r b) b = xmlMarshal env b"
      by (simp add: marshalBody_def)
    with m show "marshalledBy (parseRequestBody env c r) (xmlMarshal env b)"
      by simp
  next
    assume a: "\<not> (IsJSONType env (effectiveContentType env r b)
               \<and> (getBaseKind b = reflect_Struct \<or> getBaseKind b = reflect_Map))
            \<and> \<not> (IsXMLType env (effectiveContentType env r b) \<and> getBaseKind b = reflect_Struct)"
    then have "marshalBody env (effectiveContentType env r b) b =
                 (case b of BodyString s \<Rightarrow> (Some s, None) | BodyBytes bs \<Rightarrow> (bs, None)
                  | _ \<Rightarrow> (None, None))"
      unfolding marshalBody_def Let_def by (simp only: if_False)
    with m show "case b of
                 BodyString s \<Rightarrow>
                   succeeds (parseRequestBody env c r)
                   \<and> bufferOf (parseRequestBody env c r) = Some (Bytes s)
               | BodyBytes (Some bs) \<Rightarrow>
                   succeeds (parseRequestBody env c r)
                   \<and> bufferOf (parseRequestBody env c r) = Some (Bytes bs)
               | _ \<Rightarrow> failsWith (parseRequestBody env c r) (Err ''Unsupported 'Body' type/value'')"
      by (simp add: marshalledBy_def split: body.splits option.splits)
  qed
qed

text \<open>
  The amended claim C5 at four POST and PUT requests of the tests: a map under an XML
  content type, a plain string, a map without a content type (detected as JSON), and
  a struct under an XML content type.
\<close>

theorem body_decision_table_witness:
  "failsWith (parseRequestBody exampleEnv newClient requestXMLMap)
     (Err ''Unsupported 'Body' type/value'')
   \<and> bufferOf (parseRequestBody exampleEnv newClient requestPlainString)
       = Some (Bytes ''This is plain text body to server'')
   \<and> bufferOf (parseRequestBody exampleEnv newClient requestJSONMap)
       = Some (Bytes ''{username:testuser,password:testpass}'')
   \<and> bufferOf (parseRequestBody exampleEnv newClient requestXMLStruct)
       = Some (Bytes ''<User><Username>testuser</Username><Password>testpass</Password></User>'')"
proof -
  let ?m = "BodyMap ''{Username:testuser,Password:testpass}''"
  let ?s = "BodyString ''This is plain text body to server''"
  let ?j = "BodyMap ''{username:testuser,password:testpass}''"
  let ?x = "BodyStruct ''<User><Username>testuser</Username><Password>testpass</Password></User>''"
  have hm: "isPayloadSupported exampleEnv (Method requestXMLMap)"
    "\<not> (isMultiPart requestXMLMap \<and> Method requestXMLMap \<noteq> PATCH)"
    "client.FormData newClient = []" "request.FormData requestXMLMap = []"
    "request.Body requestXMLMap = Some ?m"
    by code_simp+
  have cm: "\<not> (IsJSONType exampleEnv (effectiveContentType exampleEnv requestXMLMap ?m)
               \<and> (getBaseKind ?m = reflect_Struct \<or> getBaseKind ?m = reflect_Map))
            \<and> \<not> (IsXMLType exampleEnv (effectiveContentType exampleEnv requestXMLMap ?m)
                  \<and> getBaseKind ?m = reflect_Struct)"
    by code_simp
  have hs: "isPayloadSupported exampleEnv (Method requestPlainString)"
    "\<not> (isMultiPart requestPlainString \<and> Method requestPlainString \<noteq> PATCH)"
    "client.FormData newClient = []" "request.FormData requestPlainString = []"
    "request.Body requestPlainString = Some ?s"
    by code_simp+
  have cs: "\<not> (IsJSONType exampleEnv (effectiveContentType exampleEnv requestPlainString ?s)
               \<and> (getBaseKind ?s = reflect_Struct \<or> getBaseKind ?s = reflect_Map))
            \<and> \<not> (IsXMLType exampleEnv (effectiveContentType exampleEnv requestPlainString ?s)
                  \<and> getBaseKind ?s = reflect_Struct)"
    by code_simp
  have hj: "isPayloadSupported exampleEnv (Method requestJSONMap)"
    "\<not> (isMultiPart requestJSONMap \<and> Method requestJSONMap \<noteq> PATCH)"
    "client.FormData newClient = []" "request.FormData requestJSONMap = []"
    "request.Body requestJSONMap = Some ?j"
    by code_simp+
  have cj: "IsJSONType exampleEnv (effectiveContentType exampleEnv requestJSONMap ?j)
               \<and> (getBaseKind ?j = reflect_Struct \<or> getBaseKind ?j = reflect_Map)"
    "jsonMarshal exampleEnv ?j = (Some ''{username:testuser,password:testpass}'', None)"
    by code_simp+
  have hx: "isPayloadSupported exampleEnv (Method requestXMLStruct)"
    "\<not> (isMultiPart requestXMLStruct \<and> Method requestXMLStruct \<noteq> PATCH)"
    "client.FormData newClient = []" "request.FormData requestXMLStruct = []"
    "request.Body requestXMLStruct = Some ?x"
    by code_simp+
  have cx: "\<not> (IsJSONType exampleEnv (effectiveContentType exampleEnv requestXMLStruct ?x)
               \<and> (getBaseKind ?x = reflect_Struct \<or> getBaseKind ?x = reflect_Map))
            \<and> IsXMLType exampleEnv (effectiveContentType exampleEnv requestXMLStruct ?x)
            \<and> getBaseKind ?x = reflect_Struct"
    "xmlMarshal exampleEnv ?x
       = (Some ''<User><Username>testuser</Username><Password>testpass</Password></User>'', None)"
    by code_simp+
  from body_decision_table [OF hm] cm
  have "failsWith (parseRequestBody exampleEnv newClient requestXMLMap)
     (Err ''Unsupported 'Body' type/value'')"
    by simp
  moreover from body_decision_table [OF hs] cs
  have "bufferOf (parseRequestBody exampleEnv newClient requestPlainString)
       = Some (Bytes ''This is plain text body to server'')"
    by simp
  moreover from body_decision_table [OF hj] cj
  have "bufferOf (parseRequestBody exampleEnv newClient requestJSONMap)
       = Some (Bytes ''{username:testuser,password:testpass}'')"
    by (simp add: marshalledBy_def)
  moreover from body_decision_table [OF hx] cx
  have "bufferOf (parseRequestBody exampleEnv newClient requestXMLStruct)
       = Some (Bytes ''<User><Username>testuser</Username><Password>testpass</Password></User>'')"
    by (simp add: marshalledBy_def)
  ultimately show ?thesis by simp
qed

text \<open>
  Claim C5 as it is stated fails at two requests. A POST whose body is the \<^verbatim>\<open>nil\<close> byte
  slice is a byte sequence and yet fails as unsupported. A GET with an XML content
  type and a map body does not fail: the verb supports no payload, the table is
  skipped, no body is built and no error is returned.
\<close>

theorem body_decision_table_counterexample:
  "request.Body requestNilBytes = Some (BodyBytes None)
   \<and> failsWith (parseRequestBody exampleEnv newClient requestNilBytes)
       (Err ''Unsupported 'Body' type/value'')
   \<and> request.Body requestGetXMLMap = Some (BodyMap ''{Username:testuser,Password:testpass}'')
   \<and> IsXMLType exampleEnv (header_get exampleEnv (request.Header requestGetXMLMap) hdrContentTypeKey)
   \<and> succeeds (parseRequestBody exampleEnv newClient requestGetXMLMap)
   \<and> bufferOf (parseRequestBody exampleEnv newClient requestGetXMLMap) = None"
  by code_simp

text \<open>
  Claim C9. When the content-length flag is set on the Client or on the Request, the
  body buffer of the request is \<^verbatim>\<open>nil\<close>, and either the verb supports no payload or it does
  but there is no multipart content, no form field and no body, then
  \<^verbatim>\<open>parseRequestBody\<close> dereferences the \<^verbatim>\<open>nil\<close> buffer: it panics, it does not return.
\<close>

theorem content_length_without_buffer_panics:
  assumes "client.setContentLength c \<or> request.setContentLength r"
    and "bodyBuf r = None"
    and "\<not> isPayloadSupported env (Method r)
         \<or> (\<not> (isMultiPart r \<and> Method r \<noteq> PATCH) \<and> client.FormData c = []
              \<and> request.FormData r = [] \<and> request.Body r = None)"
  shows "parseRequestBody env c r = Inl NilPointerDereference"
proof (cases "isPayloadSupported env (Method r)")
  case False
  then show ?thesis
    using assms(1,2) by (simp add: parseRequestBody_no_payload contentLength_no_buffer)
next
  case True
  with assms(3) have "\<not> (isMultiPart r \<and> Method r \<noteq> PATCH)" "client.FormData c = []"
    "request.FormData r = []" "request.Body r = None" by simp_all
  with True show ?thesis
    using assms(1,2) by (simp add: parseRequestBody_payload_body contentLength_no_buffer)
qed

text \<open>
  Claim C9 at a GET and at a POST without body, both with the content-length flag.
\<close>

theorem content_length_without_buffer_panics_witness:
  "parseRequestBody exampleEnv newClient requestGetLength = Inl NilPointerDereference
   \<and> parseRequestBody exampleEnv newClient requestPostLength = Inl NilPointerDereference"
proof -
  have g: "client.setContentLength newClient \<or> request.setContentLength requestGetLength"
    "bodyBuf requestGetLength = None"
    "\<not> isPayloadSupported exampleEnv (Method requestGetLength)
         \<or> (\<not> (isMultiPart requestGetLength \<and> Method requestGetLength \<noteq> PATCH)
              \<and> client.FormData newClient = []
              \<and> request.FormData requestGetLength = [] \<and> request.Body requestGetLength = None)"
    by code_simp+
  have p: "client.setContentLength newClient \<or> request.setContentLength requestPostLength"
    "bodyBuf requestPostLength = None"
    "\<not> isPayloadSupported exampleEnv (Method requestPostLength)
         \<or> (\<not> (isMultiPart requestPostLength \<and> Method requestPostLength \<noteq> PATCH)
              \<and> client.FormData newClient = []
              \<and> request.FormData requestPostLength = [] \<and> request.Body requestPostLength = None)"
    by code_simp+
  from content_length_without_buffer_panics [OF g] content_length_without_buffer_panics [OF p]
  show ?thesis by simp
qed

subsection \<open>Form fields, multipart and URL-encoded\<close>








subsection \<open>Multipart content on GET and DELETE\<close>

text \<open>
  Claim C6. A call that attaches a file and is issued with GET or with DELETE fails
  with the multipart-not-allowed error, which names the verb. The rest of the call
  (\<open>send\<close>: the middleware and the transport) is arbitrary in the statement: the
  outcome does not depend on it, so it holds before any network I/O and whatever the
  transport or the server would do.
\<close>

theorem multipart_not_allowed_on_get_or_delete:
  assumes "method = GET \<or> method = DELETE"
  shows "Execute send method url (SetFile param filePath r) =
           Inl (Err (''Multipart content is not allowed in HTTP verb ['' @ method @ '']''))"
  using assms by (auto simp: Execute_def SetFile_def)

text \<open>
  Claim C6 at the two calls of \<^verbatim>\<open>TestMultiPartUploadFileNotOnGetOrDelete\<close>.
\<close>

theorem multipart_not_allowed_on_get_or_delete_witness:
  "Execute (\<lambda>r. parseRequestBody exampleEnv newClient r) GET ''http://127.0.0.1/upload''
       (SetFile ''profile_img'' ''/test-data/test-img.png'' newRequest) =
     Inl (Err ''Multipart content is not allowed in HTTP verb [GET]'')
   \<and> Execute (\<lambda>r. parseRequestBody exampleEnv newClient r) DELETE ''http://127.0.0.1/upload''
       (SetFile ''profile_img'' ''/test-data/test-img.png'' newRequest) =
     Inl (Err ''Multipart content is not allowed in HTTP verb [DELETE]'')"
proof -
  have g: "GET = GET \<or> GET = DELETE" and d: "DELETE = GET \<or> DELETE = DELETE" by simp_all
  from multipart_not_allowed_on_get_or_delete
         [OF g, where r = newRequest and send = "\<lambda>r. parseRequestBody exampleEnv newClient r"]
    multipart_not_allowed_on_get_or_delete
         [OF d, where r = newRequest and send = "\<lambda>r. parseRequestBody exampleEnv newClient r"]
  show ?thesis by (simp add: GET_def DELETE_def)
qed

subsection \<open>The Flexible redirect policy\<close>

lemma doGet_flexible:
  assumes "length via < n" and "n \<le> length via + length chain"
  shows "doGet (FlexibleRedirectPolicy n) via req chain =
           (take n (via @ req # chain),
            Inl (Err (''Get '' @ (via @ req # chain) ! n @ '': Stopped after '' @ showNat n
                        @ '' redirects'')))"
  using assms
proof (induction chain arbitrary: via req)
  case Nil
  then show ?case by simp
next
  case (Cons nxt chain)
  show ?case
  proof (cases "Suc (length via) = n")
    case True
    then have "FlexibleRedirectPolicy n nxt (via @ [req]) =
                 Some (Err (''Stopped after '' @ showNat n @ '' redirects''))"
      by (simp add: FlexibleRedirectPolicy_def)
    moreover from True have "take n (via @ req # nxt # chain) = via @ [req]"
      and "(via @ req # nxt # chain) ! n = nxt"
      by (auto simp: nth_append)
    ultimately show ?thesis by simp
  next
    case False
    with Cons.prems have less: "length (via @ [req]) < n" by simp
    then have "FlexibleRedirectPolicy n nxt (via @ [req]) = None"
      by (simp add: FlexibleRedirectPolicy_def)
    moreover from Cons.prems have "n \<le> length (via @ [req]) + length chain" by simp
    note Cons.IH [OF less this, of nxt]
    ultimately show ?thesis by simp
  qed
qed

text \<open>
  Claim C7, as amended. For every N of at least 1 and every chain of requests with
  more than N requests in it (the first request and at least N redirect targets), a
  call under the Flexible policy with limit N sends exactly the first N requests of
  the chain, so it follows N - 1 redirects, and then fails with the error "Stopped
  after N redirects", citing the path of request N + 1 of the chain.
\<close>

theorem flexible_policy_stops_at_limit:
  assumes "0 < n" and "n \<le> length chain"
  shows "doGet (FlexibleRedirectPolicy n) [] req chain =
           (take n (req # chain),
            Inl (Err (''Get '' @ (req # chain) ! n @ '': Stopped after '' @ showNat n
                        @ '' redirects'')))
         \<and> redirectsFollowed (doGet (FlexibleRedirectPolicy n) [] req chain) = n - 1"
proof -
  have d: "doGet (FlexibleRedirectPolicy n) [] req chain =
           (take n (req # chain),
            Inl (Err (''Get '' @ (req # chain) ! n @ '': Stopped after '' @ showNat n
                        @ '' redirects'')))"
    using doGet_flexible [of "[]" n chain req] assms by simp
  moreover from assms(2) have "length (take n (req # chain)) = n" by simp
  ultimately show ?thesis by (simp add: redirectsFollowed_def)
qed

text \<open>
  The amended claim C7 at the call of \<^verbatim>\<open>TestClientRedirectPolicy\<close>: limit 20, from
  \<^verbatim>\<open>/redirect-1\<close>.
\<close>

theorem flexible_policy_stops_at_limit_witness:
  "doGet (FlexibleRedirectPolicy 20) [] ''/redirect-1'' (redirectTargets 30) =
     (''/redirect-1'' # redirectTargets 19,
      Inl (Err ''Get /redirect-21: Stopped after 20 redirects''))
   \<and> redirectsFollowed (doGet (FlexibleRedirectPolicy 20) [] ''/redirect-1'' (redirectTargets 30)) = 19"
proof -
  have h: "(0::nat) < 20" "20 \<le> length (redirectTargets 30)"
    by (simp_all add: redirectTargets_def)
  have v: "take 20 (''/redirect-1'' # redirectTargets 30) = ''/redirect-1'' # redirectTargets 19"
    "(''/redirect-1'' # redirectTargets 30) ! 20 = ''/redirect-21''"
    "showNat 20 = ''20''"
    by code_simp+
  note t = flexible_policy_stops_at_limit [OF h, of "''/redirect-1''", unfolded v]
  have a: "doGet (FlexibleRedirectPolicy 20) [] ''/redirect-1'' (redirectTargets 30) =
     (''/redirect-1'' # redirectTargets 19,
      Inl (Err ''Get /redirect-21: Stopped after 20 redirects''))"
    using t [THEN conjunct1] by simp
  have b: "redirectsFollowed (doGet (FlexibleRedirectPolicy 20) [] ''/redirect-1'' (redirectTargets 30))
             = 19"
    using t [THEN conjunct2] by simp
  show ?thesis by (rule conjI [OF a b])
qed

text \<open>
  Claim C7 as it is stated fails at the call of \<^verbatim>\<open>TestClientRedirectPolicy\<close>: with
  limit 20 the call follows 19 redirects, not 20, before it fails citing
  \<^verbatim>\<open>/redirect-21\<close>.
\<close>

theorem flexible_policy_stops_at_limit_counterexample:
  "redirectsFollowed (doGet (FlexibleRedirectPolicy 20) [] ''/redirect-1'' (redirectTargets 30)) = 19
   \<and> snd (doGet (FlexibleRedirectPolicy 20) [] ''/redirect-1'' (redirectTargets 30))
       = Inl (Err ''Get /redirect-21: Stopped after 20 redirects'')"
  by code_simp

text \<open>
  The two redirect tests that name their policy, on the model: the default client
  has the No-redirect policy, and \<^verbatim>\<open>TestClientRedirectPolicy\<close> sets the Flexible policy with
  limit 20.
\<close>

lemma TestNoAutoRedirect:
  "snd (doGet NoRedirectPolicy [] ''/redirect-1'' (redirectTargets 30))
     = Inl (Err ''Get /redirect-2: Auto redirect is disabled'')"
  by code_simp

lemma TestClientRedirectPolicy:
  "snd (doGet (FlexibleRedirectPolicy 20) [] ''/redirect-1'' (redirectTargets 30))
     = Inl (Err ''Get /redirect-21: Stopped after 20 redirects'')"
  by code_simp

end

